theory Spec2Isabelle
  imports Complex_Main
begin

section \<open>Values\<close>

text \<open>
  A float64 value as the wrapper code sees it: it is only compared and passed on, never
  computed with. Finite values are carried as reals (every double is one); the two
  infinities and NaN are separate. Signed zeros are not distinguished.
\<close>

datatype fl = Fin real | PInf | NInf | NaN

text \<open>Python's \<^verbatim>\<open>x > y\<close> on floats: every comparison with NaN is false.\<close>

fun fl_gt :: "fl \<Rightarrow> fl \<Rightarrow> bool" where
  "fl_gt NaN y = False"
| "fl_gt x NaN = False"
| "fl_gt (Fin x) (Fin y) = (y < x)"
| "fl_gt (Fin x) PInf = False"
| "fl_gt (Fin x) NInf = True"
| "fl_gt PInf PInf = False"
| "fl_gt PInf y = True"
| "fl_gt NInf y = False"

text \<open>
  A float64 \<^verbatim>\<open>ndarray\<close>: its shape tuple and its entries in row-major order. The
  operations below take their arguments in this form, that is, after
  \<^verbatim>\<open>np.asarray(A, dtype=np.float64)\<close>, which returns such an array unchanged.
\<close>

record ndarray =
  shape :: "nat list"
  buf :: "fl list"

definition ndim :: "ndarray \<Rightarrow> nat" where
  "ndim A = length (shape A)"

section \<open>Text of shapes\<close>

text \<open>Python's \<^verbatim>\<open>str\<close> of a non-negative int and of a tuple of ints, as the f-strings use it.\<close>

definition digit :: "nat \<Rightarrow> char" where
  "digit d = ''0123456789'' ! d"

fun repr_nat :: "nat \<Rightarrow> string" where
  "repr_nat n = (if n < 10 then [digit n] else repr_nat (n div 10) @ [digit (n mod 10)])"

fun join_comma :: "string list \<Rightarrow> string" where
  "join_comma [] = []"
| "join_comma [s] = s"
| "join_comma (s # t # ss) = s @ '', '' @ join_comma (t # ss)"

definition repr_shape :: "nat list \<Rightarrow> string" where
  "repr_shape sh =
     (case sh of
        [] \<Rightarrow> ''()''
      | [n] \<Rightarrow> ''('' @ repr_nat n @ '',)''
      | _ \<Rightarrow> ''('' @ join_comma (map repr_nat sh) @ '')'')"

text \<open>A string between single quotes, as \<^verbatim>\<open>repr\<close> shows it inside a message.\<close>

definition quoted :: "string \<Rightarrow> string" where
  "quoted s = [CHR 39] @ s @ [CHR 39]"

section \<open>Exceptions\<close>

text \<open>
  The two classes of \<^verbatim>\<open>core/exceptions.py\<close> that \<^verbatim>\<open>linear_algebra.py\<close> raises, each
  with the message handed to \<^verbatim>\<open>Exception.__init__\<close> and its attributes:
  \<^verbatim>\<open>SingularMatrixError(message, condition_number)\<close> and
  \<^verbatim>\<open>DimensionMismatchError(message, expected, got)\<close>. (The attribute-less classes that
  \<^verbatim>\<open>linear_algebra.py\<close> defines when this import fails are not modelled: the package has
  the module.)
\<close>

datatype anvaya_exn =
    SingularMatrixError string "fl option"
  | DimensionMismatchError string "nat list option" "nat list option"

text \<open>
  Exceptions that are not of the library: those of NumPy and of Python itself. The
  argument is the message.
\<close>

datatype raw_exn =
  LinAlgError string | ValueError string | TypeError string | IndexError string | OverflowError string

datatype py_exn = Anvaya anvaya_exn | Raw raw_exn

text \<open>
  \<^verbatim>\<open>SingularMatrixError.__init__\<close>: the attribute is stored as given, and a condition
  number that is not \<^verbatim>\<open>None\<close> is appended to the message in the format \<^verbatim>\<open>.2e\<close>
  (the formatting of a float is Python's, taken as \<open>fmt\<close>).
\<close>

definition SingularMatrixError_init :: "(fl \<Rightarrow> string) \<Rightarrow> string \<Rightarrow> fl option \<Rightarrow> anvaya_exn" where
  "SingularMatrixError_init fmt message condition_number =
     (case condition_number of
        Some c \<Rightarrow> SingularMatrixError (message @ '' (condition number: '' @ fmt c @ '')'') condition_number
      | None \<Rightarrow> SingularMatrixError message condition_number)"

text \<open>\<^verbatim>\<open>DimensionMismatchError.__init__\<close>: the message is extended only when both attributes are given.\<close>

definition DimensionMismatchError_init :: "string \<Rightarrow> nat list option \<Rightarrow> nat list option \<Rightarrow> anvaya_exn" where
  "DimensionMismatchError_init message expected got =
     (case (expected, got) of
        (Some e, Some g) \<Rightarrow>
          DimensionMismatchError (message @ '': expected '' @ repr_shape e @ '', got '' @ repr_shape g) expected got
      | _ \<Rightarrow> DimensionMismatchError message expected got)"

fun condition_number :: "anvaya_exn \<Rightarrow> fl option" where
  "condition_number (SingularMatrixError m c) = c"
| "condition_number (DimensionMismatchError m e g) = None"

fun expected :: "anvaya_exn \<Rightarrow> nat list option" where
  "expected (DimensionMismatchError m e g) = e"
| "expected (SingularMatrixError m c) = None"

fun got :: "anvaya_exn \<Rightarrow> nat list option" where
  "got (DimensionMismatchError m e g) = g"
| "got (SingularMatrixError m c) = None"

section \<open>The NumPy interface and the effects of a call\<close>

text \<open>
  Python scalars as they occur in the nested lists given to \<^verbatim>\<open>matrix\<close>, and the
  \<^verbatim>\<open>ord\<close> argument of \<^verbatim>\<open>norm\<close> (\<^verbatim>\<open>Union[int, float, str]\<close>; of the floats only the
  two infinities of the docstring are kept).
\<close>

datatype pyscalar = PyInt int | PyFloat fl | PyStr string

datatype norm_ord = OrdInt int | OrdInf | OrdNegInf | OrdStr string

text \<open>
  NumPy is not part of the repository. The operations take the routines they call as a
  parameter: one field for each routine, returning the exception it raises or its result.
  \<open>array_f64\<close> is \<^verbatim>\<open>np.array(\<cdot>, dtype=np.float64)\<close> on a list of rows, \<open>fmt_2e\<close> is Python's
  formatting of a float with \<^verbatim>\<open>.2e\<close>.
\<close>

record numpy =
  array_f64 :: "pyscalar list list \<Rightarrow> raw_exn + ndarray"
  np_dot :: "ndarray \<Rightarrow> ndarray \<Rightarrow> raw_exn + ndarray"
  linalg_det :: "ndarray \<Rightarrow> raw_exn + fl"
  linalg_cond :: "ndarray \<Rightarrow> raw_exn + fl"
  linalg_inv :: "ndarray \<Rightarrow> raw_exn + ndarray"
  linalg_solve :: "ndarray \<Rightarrow> ndarray \<Rightarrow> raw_exn + ndarray"
  linalg_norm :: "ndarray \<Rightarrow> norm_ord \<Rightarrow> raw_exn + fl"
  linalg_cholesky :: "ndarray \<Rightarrow> raw_exn + ndarray"
  fmt_2e :: "fl \<Rightarrow> string"

text \<open>
  What a call does besides returning: the NumPy routines it invoked and the warnings it
  issued through \<^verbatim>\<open>warnings.warn(\<cdot>, RuntimeWarning)\<close>, in the order of execution. A call
  yields this log and either the exception it raised or its return value.
\<close>

datatype np_fn =
  NpArray | NpDot | LinalgDet | LinalgCond | LinalgInv | LinalgSolve | LinalgNorm | LinalgCholesky

datatype event = Called np_fn | RuntimeWarning string

type_synonym 'a run = "event list \<times> (py_exn + 'a)"

definition raised :: "'a run \<Rightarrow> py_exn option" where
  "raised r = (case snd r of Inl e \<Rightarrow> Some e | Inr v \<Rightarrow> None)"

definition returned :: "'a run \<Rightarrow> 'a option" where
  "returned r = (case snd r of Inl e \<Rightarrow> None | Inr v \<Rightarrow> Some v)"

definition invoked :: "np_fn \<Rightarrow> 'a run \<Rightarrow> bool" where
  "invoked f r = (Called f \<in> set (fst r))"

fun is_warning :: "event \<Rightarrow> bool" where
  "is_warning (RuntimeWarning m) = True"
| "is_warning (Called f) = False"

definition advisories :: "'a run \<Rightarrow> event list" where
  "advisories r = filter is_warning (fst r)"

section \<open>The operations of linear\_algebra.py\<close>

definition matrix :: "numpy \<Rightarrow> pyscalar list list \<Rightarrow> ndarray run" where
  "matrix np data =
     (case array_f64 np data of
        Inl e \<Rightarrow> ([Called NpArray], Inl (Raw e))
      | Inr A \<Rightarrow> ([Called NpArray], Inr A))"

text \<open>
  \<^verbatim>\<open>A.shape[-1]\<close> and \<^verbatim>\<open>B.shape[0]\<close> raise IndexError on the empty shape tuple of a
  0-dimensional array.
\<close>

definition multiply :: "numpy \<Rightarrow> ndarray \<Rightarrow> ndarray \<Rightarrow> ndarray run" where
  "multiply np A B =
     (if shape A = [] \<or> shape B = [] then ([], Inl (Raw (IndexError ''tuple index out of range'')))
      else if last (shape A) \<noteq> hd (shape B) then
        ([], Inl (Anvaya (DimensionMismatchError_init
               (''Cannot multiply matrices with shapes '' @ repr_shape (shape A) @ '' and ''
                  @ repr_shape (shape B)) None None)))
      else
        (case np_dot np A B of
           Inl e \<Rightarrow> ([Called NpDot], Inl (Raw e))
         | Inr C \<Rightarrow> ([Called NpDot], Inr C)))"

definition determinant :: "numpy \<Rightarrow> ndarray \<Rightarrow> bool \<Rightarrow> fl run" where
  "determinant np A check_numerical =
     (if ndim A \<noteq> 2 \<or> shape A ! 0 \<noteq> shape A ! 1 then
        ([], Inl (Anvaya (DimensionMismatchError_init
               (''Determinant requires square matrix, got shape '' @ repr_shape (shape A))
               None None)))
      else
        (case linalg_det np A of
           Inl e \<Rightarrow> ([Called LinalgDet], Inl (Raw e))
         | Inr det \<Rightarrow>
             if check_numerical \<and> shape A ! 0 > 10 then
               (case linalg_cond np A of
                  Inl e \<Rightarrow> ([Called LinalgDet, Called LinalgCond], Inl (Raw e))
                | Inr cond \<Rightarrow>
                    if fl_gt cond (Fin 10000000000) then
                      ([Called LinalgDet, Called LinalgCond,
                        RuntimeWarning (''Matrix has high condition number ('' @ fmt_2e np cond
                          @ ''). Determinant may be numerically unreliable.'')],
                       Inr det)
                    else ([Called LinalgDet, Called LinalgCond], Inr det))
             else ([Called LinalgDet], Inr det)))"

text \<open>
  \<^verbatim>\<open>np.finfo(np.float64).eps\<close> is \<open>2\<^sup>-\<^sup>5\<^sup>2\<close>; its reciprocal is a power of two, so the
  float division \<^verbatim>\<open>1 / eps\<close> is exact.
\<close>

definition finfo_eps :: real where
  "finfo_eps = 1 / 2 ^ 52"

definition hard_failure_threshold :: fl where
  "hard_failure_threshold = Fin (1 / finfo_eps)"

text \<open>The \<^verbatim>\<open>try\<close> block of \<^verbatim>\<open>inverse\<close>: a LinAlgError becomes a SingularMatrixError with its text.\<close>

definition try_inv :: "numpy \<Rightarrow> ndarray \<Rightarrow> ndarray run" where
  "try_inv np A =
     (case linalg_inv np A of
        Inr R \<Rightarrow> ([Called LinalgInv], Inr R)
      | Inl (LinAlgError m) \<Rightarrow>
          ([Called LinalgInv], Inl (Anvaya (SingularMatrixError_init (fmt_2e np) m None)))
      | Inl e \<Rightarrow> ([Called LinalgInv], Inl (Raw e)))"

definition inverse_la :: "numpy \<Rightarrow> ndarray \<Rightarrow> bool \<Rightarrow> ndarray run" where
  "inverse_la np A check_singular =
     (if ndim A \<noteq> 2 \<or> shape A ! 0 \<noteq> shape A ! 1 then
        ([], Inl (Anvaya (DimensionMismatchError_init
               (''Inverse requires square matrix, got shape '' @ repr_shape (shape A))
               None None)))
      else if check_singular then
        (case linalg_cond np A of
           Inl e \<Rightarrow> ([Called LinalgCond], Inl (Raw e))
         | Inr cond \<Rightarrow>
             if fl_gt cond hard_failure_threshold then
               ([Called LinalgCond],
                Inl (Anvaya (SingularMatrixError_init (fmt_2e np)
                       ''Matrix is singular or nearly singular'' (Some cond))))
             else (Called LinalgCond # fst (try_inv np A), snd (try_inv np A)))
      else try_inv np A)"

definition solve_linear_system :: "numpy \<Rightarrow> ndarray \<Rightarrow> ndarray \<Rightarrow> ndarray run" where
  "solve_linear_system np A b =
     (case linalg_solve np A b of
        Inr x \<Rightarrow> ([Called LinalgSolve], Inr x)
      | Inl (LinAlgError m) \<Rightarrow>
          ([Called LinalgSolve],
           Inl (Anvaya (SingularMatrixError_init (fmt_2e np) (''Cannot solve system: '' @ m) None)))
      | Inl e \<Rightarrow> ([Called LinalgSolve], Inl (Raw e)))"

text \<open>\<^verbatim>\<open>norm(v, ord=2)\<close>: \<open>None\<close> is the call without an explicit order.\<close>

definition norm_la :: "numpy \<Rightarrow> ndarray \<Rightarrow> norm_ord option \<Rightarrow> fl run" where
  "norm_la np v ord =
     (case linalg_norm np v (case ord of None \<Rightarrow> OrdInt 2 | Some k \<Rightarrow> k) of
        Inl e \<Rightarrow> ([Called LinalgNorm], Inl (Raw e))
      | Inr x \<Rightarrow> ([Called LinalgNorm], Inr x))"

definition is_positive_definite :: "numpy \<Rightarrow> ndarray \<Rightarrow> bool run" where
  "is_positive_definite np A =
     (case linalg_cholesky np A of
        Inr L \<Rightarrow> ([Called LinalgCholesky], Inr True)
      | Inl (LinAlgError m) \<Rightarrow> ([Called LinalgCholesky], Inr False)
      | Inl e \<Rightarrow> ([Called LinalgCholesky], Inl (Raw e)))"

section \<open>NumPy's side of the calls\<close>

text \<open>
  What NumPy does with an argument before any arithmetic: the shape discovery and element
  conversion of \<^verbatim>\<open>np.array\<close>, the shape assertions of \<^verbatim>\<open>numpy.linalg\<close> and the choice
  of norm made by \<^verbatim>\<open>numpy.linalg.norm\<close>. The arithmetic itself (LAPACK, the parsing and
  rounding of scalars, the formatting of floats) stays a parameter, the record \<open>backend\<close>.
\<close>

datatype norm_kind =
    VecMax | VecMin | VecCountNonzero | VecSum | Euclidean | VecPower int
  | Spectral | MinSingular | MaxColSum | MinColSum | MaxRowSum | MinRowSum | Frobenius | Nuclear

record backend =
  float_of_int :: "int \<Rightarrow> raw_exn + fl"
  float_of_str :: "string \<Rightarrow> raw_exn + fl"
  be_dot :: "ndarray \<Rightarrow> ndarray \<Rightarrow> raw_exn + ndarray"
  be_det :: "ndarray \<Rightarrow> raw_exn + fl"
  be_cond :: "ndarray \<Rightarrow> raw_exn + fl"
  be_inv :: "ndarray \<Rightarrow> raw_exn + ndarray"
  be_solve :: "ndarray \<Rightarrow> ndarray \<Rightarrow> raw_exn + ndarray"
  be_norm :: "norm_kind \<Rightarrow> ndarray \<Rightarrow> raw_exn + fl"
  be_cholesky :: "ndarray \<Rightarrow> raw_exn + ndarray"
  be_fmt_2e :: "fl \<Rightarrow> string"

text \<open>
  An element of the nested list becomes a float64: a float is kept, an int of magnitude up
  to \<open>2\<^sup>5\<^sup>3\<close> is represented exactly, a larger int is rounded (or overflows) and a string
  is parsed, both by the backend.
\<close>

definition to_float64 :: "backend \<Rightarrow> pyscalar \<Rightarrow> raw_exn + fl" where
  "to_float64 be x =
     (case x of
        PyFloat f \<Rightarrow> Inr f
      | PyInt n \<Rightarrow> if \<bar>n\<bar> \<le> 2 ^ 53 then Inr (Fin (of_int n)) else float_of_int be n
      | PyStr s \<Rightarrow> float_of_str be s)"

fun convert_all :: "('a \<Rightarrow> raw_exn + 'b) \<Rightarrow> 'a list \<Rightarrow> raw_exn + 'b list" where
  "convert_all f [] = Inr []"
| "convert_all f (x # xs) =
     (case f x of
        Inl e \<Rightarrow> Inl e
      | Inr y \<Rightarrow> (case convert_all f xs of Inl e \<Rightarrow> Inl e | Inr ys \<Rightarrow> Inr (y # ys)))"

text \<open>
  \<^verbatim>\<open>np.array(data, dtype=np.float64)\<close> on a list of rows of scalars. The shape is found
  first: rows of unequal length raise ValueError. Then the elements are converted in
  row-major order, and the first failure is raised. The empty list gives shape \<^verbatim>\<open>(0,)\<close>.
\<close>

definition np_array_f64 :: "backend \<Rightarrow> pyscalar list list \<Rightarrow> raw_exn + ndarray" where
  "np_array_f64 be data =
     (case data of
        [] \<Rightarrow> Inr \<lparr>shape = [0], buf = []\<rparr>
      | r # rs \<Rightarrow>
          if list_ex (\<lambda>row. length row \<noteq> length r) rs then
            Inl (ValueError (''setting an array element with a sequence. The requested array ''
                   @ ''has an inhomogeneous shape after 1 dimensions. The detected shape was ''
                   @ repr_shape [length data] @ '' + inhomogeneous part.''))
          else
            (case convert_all (to_float64 be) (concat data) of
               Inl e \<Rightarrow> Inl e
             | Inr xs \<Rightarrow> Inr \<lparr>shape = [length data, length r], buf = xs\<rparr>))"

text \<open>The assertions \<^verbatim>\<open>_assert_stacked_2d\<close> and \<^verbatim>\<open>_assert_stacked_square\<close> of \<^verbatim>\<open>numpy.linalg\<close>.\<close>

definition assert_stacked_square :: "ndarray \<Rightarrow> raw_exn option" where
  "assert_stacked_square A =
     (if ndim A < 2 then
        Some (LinAlgError (repr_nat (ndim A)
                @ ''-dimensional array given. Array must be at least two-dimensional''))
      else if shape A ! (ndim A - 2) \<noteq> shape A ! (ndim A - 1) then
        Some (LinAlgError ''Last 2 dimensions of the array must be square'')
      else None)"

definition asserted :: "ndarray \<Rightarrow> (raw_exn + 'a) \<Rightarrow> raw_exn + 'a" where
  "asserted A r = (case assert_stacked_square A of Some e \<Rightarrow> Inl e | None \<Rightarrow> r)"

text \<open>
  The norm that \<^verbatim>\<open>numpy.linalg.norm(x, ord)\<close> computes (with \<^verbatim>\<open>axis=None\<close>), by the
  number of dimensions of \<open>x\<close> and the order.
\<close>

definition norm_dispatch :: "nat \<Rightarrow> norm_ord \<Rightarrow> raw_exn + norm_kind" where
  "norm_dispatch nd ord =
     (if nd = 1 then
        (case ord of
           OrdInf \<Rightarrow> Inr VecMax
         | OrdNegInf \<Rightarrow> Inr VecMin
         | OrdInt k \<Rightarrow>
             Inr (if k = 0 then VecCountNonzero else if k = 1 then VecSum
                  else if k = 2 then Euclidean else VecPower k)
         | OrdStr s \<Rightarrow> Inl (ValueError (''Invalid norm order '' @ quoted s @ '' for vectors'')))
      else if nd = 2 then
        (case ord of
           OrdInf \<Rightarrow> Inr MaxRowSum
         | OrdNegInf \<Rightarrow> Inr MinRowSum
         | OrdInt k \<Rightarrow>
             if k = 2 then Inr Spectral else if k = - 2 then Inr MinSingular
             else if k = 1 then Inr MaxColSum else if k = - 1 then Inr MinColSum
             else Inl (ValueError ''Invalid norm order for matrices.'')
         | OrdStr s \<Rightarrow>
             if s = ''fro'' \<or> s = ''f'' then Inr Frobenius
             else if s = ''nuc'' then Inr Nuclear
             else Inl (ValueError ''Invalid norm order for matrices.''))
      else Inl (ValueError ''Improper number of dimensions to norm.''))"

definition np_linalg_norm :: "backend \<Rightarrow> ndarray \<Rightarrow> norm_ord \<Rightarrow> raw_exn + fl" where
  "np_linalg_norm be x ord =
     (case norm_dispatch (ndim x) ord of Inl e \<Rightarrow> Inl e | Inr k \<Rightarrow> be_norm be k x)"

definition numpy_of :: "backend \<Rightarrow> numpy" where
  "numpy_of be =
     \<lparr> array_f64 = np_array_f64 be,
       np_dot = be_dot be,
       linalg_det = (\<lambda>A. asserted A (be_det be A)),
       linalg_cond = be_cond be,
       linalg_inv = (\<lambda>A. asserted A (be_inv be A)),
       linalg_solve = (\<lambda>A b. asserted A (be_solve be A b)),
       linalg_norm = np_linalg_norm be,
       linalg_cholesky = (\<lambda>A. asserted A (be_cholesky be A)),
       fmt_2e = be_fmt_2e be \<rparr>"

section \<open>A fixture for concrete calls\<close>

text \<open>
  To run the operations on concrete arguments a backend is needed. The fixture answers as
  NumPy does on all-zero matrices and vectors and on identity matrices, where the answers
  are exact, and reports every other request as outside the fixture.
\<close>

definition zeros :: "nat list \<Rightarrow> ndarray" where
  "zeros sh = \<lparr>shape = sh, buf = replicate (prod_list sh) (Fin 0)\<rparr>"

definition eye :: "nat \<Rightarrow> ndarray" where
  "eye n = \<lparr>shape = [n, n],
            buf = concat (map (\<lambda>i. map (\<lambda>j. if i = j then Fin 1 else Fin 0) [0..<n]) [0..<n])\<rparr>"

definition zero_array :: "nat \<Rightarrow> ndarray \<Rightarrow> bool" where
  "zero_array d A = (ndim A = d \<and> buf A \<noteq> [] \<and> A = zeros (shape A))"

definition identity_matrix :: "ndarray \<Rightarrow> bool" where
  "identity_matrix A = (ndim A = 2 \<and> buf A \<noteq> [] \<and> A = eye (hd (shape A)))"

definition rhs_for :: "ndarray \<Rightarrow> ndarray \<Rightarrow> bool" where
  "rhs_for A b = (ndim b = 1 \<and> shape b = [hd (shape A)] \<and> length (buf b) = hd (shape A))"

definition outside :: "raw_exn + 'a" where
  "outside = Inl (ValueError ''outside the fixture'')"

definition fixture :: backend where
  "fixture =
     \<lparr> float_of_int = (\<lambda>n. outside),
       float_of_str =
         (\<lambda>s. if s = ''1.5'' then Inr (Fin (3 / 2))
              else if s = ''abc'' then
                Inl (ValueError (''could not convert string to float: '' @ quoted s))
              else outside),
       be_dot = (\<lambda>A B. outside),
       be_det =
         (\<lambda>A. if zero_array 2 A then Inr (Fin 0)
              else if identity_matrix A then Inr (Fin 1) else outside),
       be_cond =
         (\<lambda>A. if zero_array 2 A then Inr PInf
              else if identity_matrix A then Inr (Fin 1) else outside),
       be_inv =
         (\<lambda>A. if zero_array 2 A then Inl (LinAlgError ''Singular matrix'')
              else if identity_matrix A then Inr A else outside),
       be_solve =
         (\<lambda>A b. if \<not> rhs_for A b then outside
                else if zero_array 2 A then Inl (LinAlgError ''Singular matrix'')
                else if identity_matrix A then Inr b else outside),
       be_norm =
         (\<lambda>k x. if zero_array 1 x \<and> k = Euclidean then Inr (Fin 0)
                else if x = eye 4 \<and> k = Spectral then Inr (Fin 1)
                else if x = eye 4 \<and> k = Frobenius then Inr (Fin 2)
                else outside),
       be_cholesky =
         (\<lambda>A. if zero_array 2 A then Inl (LinAlgError ''Matrix is not positive definite'')
              else if identity_matrix A then Inr A else outside),
       be_fmt_2e = (\<lambda>x. if x = PInf then ''inf'' else if x = Fin 1 then ''1.00e+00'' else ''?'') \<rparr>"

section \<open>Facts about the fixture\<close>

lemma threshold_value: "hard_failure_threshold = Fin 4503599627370496"
  by (simp add: hard_failure_threshold_def finfo_eps_def)

lemma shape_zeros: "shape (zeros sh) = sh"
  by (simp add: zeros_def)

lemma ndim_zeros: "ndim (zeros sh) = length sh"
  by (simp add: ndim_def zeros_def)

section \<open>Multiplication of incompatible matrices\<close>

text \<open>
  C5, as the code has it. For arrays \<open>A\<close>, \<open>B\<close> of at least one dimension whose inner
  dimensions differ (for matrices: the columns of \<open>A\<close> and the rows of \<open>B\<close>),
  \<^verbatim>\<open>multiply\<close> raises DimensionMismatchError before it calls NumPy, and the exception
  carries the message naming both shapes only: its attributes \<^verbatim>\<open>expected\<close> and \<^verbatim>\<open>got\<close>
  are \<^verbatim>\<open>None\<close>.
\<close>

theorem multiply_mismatch_message_only:
  assumes "shape A \<noteq> []" and "shape B \<noteq> []" and "last (shape A) \<noteq> hd (shape B)"
  shows "multiply np A B =
           ([], Inl (Anvaya (DimensionMismatchError
                  (''Cannot multiply matrices with shapes '' @ repr_shape (shape A) @ '' and ''
                     @ repr_shape (shape B))
                  None None)))"
  using assms by (simp add: multiply_def DimensionMismatchError_init_def)

theorem multiply_mismatch_message_only_witness:
  "shape (zeros [2, 3]) \<noteq> [] \<and> shape (zeros [4, 2]) \<noteq> []
   \<and> last (shape (zeros [2, 3])) \<noteq> hd (shape (zeros [4, 2]))
   \<and> multiply (numpy_of fixture) (zeros [2, 3]) (zeros [4, 2]) =
       ([], Inl (Anvaya (DimensionMismatchError
              ''Cannot multiply matrices with shapes (2, 3) and (4, 2)'' None None)))"
proof -
  have h1: "shape (zeros [2, 3]) \<noteq> []" by (simp add: shape_zeros)
  have h2: "shape (zeros [4, 2]) \<noteq> []" by (simp add: shape_zeros)
  have h3: "last (shape (zeros [2, 3])) \<noteq> hd (shape (zeros [4, 2]))" by (simp add: shape_zeros)
  have t: "repr_shape [2, 3] = ''(2, 3)''" "repr_shape [4, 2] = ''(4, 2)''" by code_simp+
  from multiply_mismatch_message_only [OF h1 h2 h3, of "numpy_of fixture"]
  have "multiply (numpy_of fixture) (zeros [2, 3]) (zeros [4, 2]) =
       ([], Inl (Anvaya (DimensionMismatchError
              ''Cannot multiply matrices with shapes (2, 3) and (4, 2)'' None None)))"
    by (simp add: shape_zeros t)
  with h1 h2 h3 show ?thesis by blast
qed

text \<open>
  The claim as stated fails: multiplying a \<open>(2, 3)\<close> by a \<open>(4, 2)\<close> matrix raises a
  DimensionMismatchError whose \<^verbatim>\<open>expected\<close> is not 3 and whose \<^verbatim>\<open>got\<close> is not 4; both
  are \<^verbatim>\<open>None\<close>.
\<close>

theorem multiply_fields_counterexample:
  "(case raised (multiply (numpy_of fixture) (zeros [2, 3]) (zeros [4, 2])) of
      Some (Anvaya e) \<Rightarrow> expected e = None \<and> got e = None \<and> expected e \<noteq> Some [3] \<and> got e \<noteq> Some [4]
    | _ \<Rightarrow> False)"
  by code_simp

section \<open>The hard-failure threshold of inverse\<close>

text \<open>
  C1. For a square matrix \<open>A\<close> whose condition number, as \<^verbatim>\<open>np.linalg.cond\<close> returns it,
  exceeds \<^verbatim>\<open>1 / eps\<close> (which is \<open>2\<^sup>5\<^sup>2 = 4503599627370496\<close>, about 4.5e15),
  \<^verbatim>\<open>inverse(A, check_singular=True)\<close> raises SingularMatrixError with that condition
  number in its \<^verbatim>\<open>condition_number\<close> attribute, and the only NumPy routine it has
  called is \<^verbatim>\<open>cond\<close>: the inversion is not attempted.
\<close>

theorem inverse_hard_failure:
  assumes "ndim A = 2" and "shape A ! 0 = shape A ! 1"
    and "linalg_cond np A = Inr c" and "fl_gt c hard_failure_threshold"
  shows "inverse_la np A True =
           ([Called LinalgCond],
            Inl (Anvaya (SingularMatrixError
                   (''Matrix is singular or nearly singular (condition number: '' @ fmt_2e np c @ '')'')
                   (Some c))))
         \<and> (case raised (inverse_la np A True) of
               Some (Anvaya e) \<Rightarrow> condition_number e = Some c
             | _ \<Rightarrow> False)
         \<and> \<not> invoked LinalgInv (inverse_la np A True)
         \<and> hard_failure_threshold = Fin 4503599627370496"
  using assms
  by (simp add: inverse_la_def SingularMatrixError_init_def invoked_def raised_def threshold_value)

theorem inverse_hard_failure_witness:
  "ndim (zeros [2, 2]) = 2 \<and> shape (zeros [2, 2]) ! 0 = shape (zeros [2, 2]) ! 1
   \<and> linalg_cond (numpy_of fixture) (zeros [2, 2]) = Inr PInf
   \<and> fl_gt PInf hard_failure_threshold
   \<and> raised (inverse_la (numpy_of fixture) (zeros [2, 2]) True) =
       Some (Anvaya (SingularMatrixError
               ''Matrix is singular or nearly singular (condition number: inf)'' (Some PInf)))
   \<and> \<not> invoked LinalgInv (inverse_la (numpy_of fixture) (zeros [2, 2]) True)"
proof -
  have h1: "ndim (zeros [2, 2]) = 2" by (simp add: ndim_zeros)
  have h2: "shape (zeros [2, 2]) ! 0 = shape (zeros [2, 2]) ! 1" by (simp add: shape_zeros)
  have h3: "linalg_cond (numpy_of fixture) (zeros [2, 2]) = Inr PInf" by code_simp
  have h4: "fl_gt PInf hard_failure_threshold" by (simp add: hard_failure_threshold_def)
  have f: "fmt_2e (numpy_of fixture) PInf = ''inf''" by code_simp
  from inverse_hard_failure [OF h1 h2 h3 h4]
  have "raised (inverse_la (numpy_of fixture) (zeros [2, 2]) True) =
       Some (Anvaya (SingularMatrixError
               ''Matrix is singular or nearly singular (condition number: inf)'' (Some PInf)))
     \<and> \<not> invoked LinalgInv (inverse_la (numpy_of fixture) (zeros [2, 2]) True)"
    by (simp add: f raised_def invoked_def)
  with h1 h2 h3 h4 show ?thesis by blast
qed

section \<open>The advisory of determinant\<close>

text \<open>
  C4. Let \<open>A\<close> be square and let \<^verbatim>\<open>np.linalg.det\<close> return \<open>d\<close> on it. If \<open>A\<close> is
  \<open>10 \<times> 10\<close> or smaller, \<^verbatim>\<open>determinant(A, check_numerical=True)\<close> returns \<open>d\<close> after
  calling \<^verbatim>\<open>det\<close> alone, so that it issues no warning. With \<open>c\<close> the condition number
  that \<^verbatim>\<open>np.linalg.cond\<close> returns, the call issues its RuntimeWarning if and only if
  \<open>A\<close> is larger than \<open>10 \<times> 10\<close> and \<open>c > 1e10\<close>, and it returns \<open>d\<close> in either case.
\<close>

theorem determinant_advisory:
  assumes "ndim A = 2" and "shape A ! 0 = shape A ! 1" and "linalg_det np A = Inr d"
  shows "(shape A ! 0 \<le> 10 \<longrightarrow> determinant np A True = ([Called LinalgDet], Inr d))
       \<and> (linalg_cond np A = Inr c \<longrightarrow>
             (advisories (determinant np A True) \<noteq> [] \<longleftrightarrow>
                10 < shape A ! 0 \<and> fl_gt c (Fin 10000000000))
             \<and> returned (determinant np A True) = Some d)"
  using assms
  by (auto simp add: determinant_def advisories_def returned_def)

theorem determinant_advisory_witness:
  "ndim (zeros [11, 11]) = 2 \<and> shape (zeros [11, 11]) ! 0 = shape (zeros [11, 11]) ! 1
   \<and> linalg_det (numpy_of fixture) (zeros [11, 11]) = Inr (Fin 0)
   \<and> linalg_cond (numpy_of fixture) (zeros [11, 11]) = Inr PInf
   \<and> fl_gt PInf (Fin 10000000000)
   \<and> advisories (determinant (numpy_of fixture) (zeros [11, 11]) True) \<noteq> []
   \<and> returned (determinant (numpy_of fixture) (zeros [11, 11]) True) = Some (Fin 0)
   \<and> linalg_det (numpy_of fixture) (eye 11) = Inr (Fin 1)
   \<and> linalg_cond (numpy_of fixture) (eye 11) = Inr (Fin 1)
   \<and> advisories (determinant (numpy_of fixture) (eye 11) True) = []
   \<and> returned (determinant (numpy_of fixture) (eye 11) True) = Some (Fin 1)
   \<and> shape (zeros [2, 2]) ! 0 \<le> 10
   \<and> linalg_det (numpy_of fixture) (zeros [2, 2]) = Inr (Fin 0)
   \<and> determinant (numpy_of fixture) (zeros [2, 2]) True = ([Called LinalgDet], Inr (Fin 0))"
proof -
  let ?np = "numpy_of fixture"
  have a1: "ndim (zeros [11, 11]) = 2" by (simp add: ndim_zeros)
  have a2: "shape (zeros [11, 11]) ! 0 = shape (zeros [11, 11]) ! 1" by (simp add: shape_zeros)
  have a3: "linalg_det ?np (zeros [11, 11]) = Inr (Fin 0)" by code_simp
  have a4: "linalg_cond ?np (zeros [11, 11]) = Inr PInf" by code_simp
  have a5: "fl_gt PInf (Fin 10000000000)" by simp
  have b1: "ndim (eye 11) = 2" by (simp add: ndim_def eye_def)
  have b2: "shape (eye 11) ! 0 = shape (eye 11) ! 1" by (simp add: eye_def)
  have b3: "linalg_det ?np (eye 11) = Inr (Fin 1)" by code_simp
  have b4: "linalg_cond ?np (eye 11) = Inr (Fin 1)" by code_simp
  have b5: "shape (eye 11) ! 0 = 11" by (simp add: eye_def)
  have c1: "ndim (zeros [2, 2]) = 2" by (simp add: ndim_zeros)
  have c2: "shape (zeros [2, 2]) ! 0 = shape (zeros [2, 2]) ! 1" by (simp add: shape_zeros)
  have c3: "linalg_det ?np (zeros [2, 2]) = Inr (Fin 0)" by code_simp
  have c4: "shape (zeros [2, 2]) ! 0 \<le> 10" by (simp add: shape_zeros)
  from determinant_advisory [OF a1 a2 a3, of PInf] a4 a5
  have A: "advisories (determinant ?np (zeros [11, 11]) True) \<noteq> []
           \<and> returned (determinant ?np (zeros [11, 11]) True) = Some (Fin 0)"
    by (simp add: shape_zeros)
  from determinant_advisory [OF b1 b2 b3, of "Fin 1"] b4 b5
  have B: "advisories (determinant ?np (eye 11) True) = []
           \<and> returned (determinant ?np (eye 11) True) = Some (Fin 1)"
    by simp
  from determinant_advisory [OF c1 c2 c3] c4
  have C: "determinant ?np (zeros [2, 2]) True = ([Called LinalgDet], Inr (Fin 0))"
    by blast
  from a1 a2 a3 a4 a5 A b3 b4 B c4 c3 C show ?thesis by blast
qed

section \<open>The switches do not change the result\<close>

text \<open>
  C9. \<^verbatim>\<open>determinant(A, check_numerical=True)\<close> and
  \<^verbatim>\<open>determinant(A, check_numerical=False)\<close> have the same outcome, the same value or the
  same exception, whenever the condition number, where the check computes it (more than
  10 rows), is returned by NumPy; and a value returned with the check on is the value
  returned with the check off. Whenever \<^verbatim>\<open>inverse(B, check_singular=True)\<close> returns a
  matrix, \<^verbatim>\<open>inverse(B, check_singular=False)\<close> returns the same matrix.
\<close>

theorem switches_preserve_result:
  "((10 < shape A ! 0 \<longrightarrow> (\<exists>c. linalg_cond np A = Inr c)) \<longrightarrow>
       snd (determinant np A True) = snd (determinant np A False))
   \<and> (returned (determinant np A True) = Some d \<longrightarrow> returned (determinant np A False) = Some d)
   \<and> (returned (inverse_la np B True) = Some R \<longrightarrow> returned (inverse_la np B False) = Some R)"
  by (auto simp add: determinant_def inverse_la_def returned_def split: sum.splits if_splits)

theorem switches_preserve_result_witness:
  "linalg_cond (numpy_of fixture) (zeros [11, 11]) = Inr PInf
   \<and> snd (determinant (numpy_of fixture) (zeros [11, 11]) True) =
       snd (determinant (numpy_of fixture) (zeros [11, 11]) False)
   \<and> returned (determinant (numpy_of fixture) (zeros [11, 11]) True) = Some (Fin 0)
   \<and> returned (determinant (numpy_of fixture) (zeros [11, 11]) False) = Some (Fin 0)
   \<and> returned (inverse_la (numpy_of fixture) (eye 2) True) = Some (eye 2)
   \<and> returned (inverse_la (numpy_of fixture) (eye 2) False) = Some (eye 2)"
proof -
  let ?np = "numpy_of fixture"
  have a: "linalg_cond ?np (zeros [11, 11]) = Inr PInf" by code_simp
  have d: "returned (determinant ?np (zeros [11, 11]) True) = Some (Fin 0)" by code_simp
  have i: "returned (inverse_la ?np (eye 2) True) = Some (eye 2)" by code_simp
  note t = switches_preserve_result [of "zeros [11, 11]" ?np "Fin 0" "eye 2" "eye 2"]
  from t a have "snd (determinant ?np (zeros [11, 11]) True) = snd (determinant ?np (zeros [11, 11]) False)"
    by blast
  moreover from t d have "returned (determinant ?np (zeros [11, 11]) False) = Some (Fin 0)"
    by blast
  moreover from t i have "returned (inverse_la ?np (eye 2) False) = Some (eye 2)"
    by blast
  ultimately show ?thesis using a d i by blast
qed

section \<open>Solving a linear system\<close>

text \<open>
  C2, as the code has it. \<^verbatim>\<open>solve_linear_system\<close> validates nothing itself and never
  raises DimensionMismatchError: it hands \<open>A\<close> and \<open>b\<close> to \<^verbatim>\<open>np.linalg.solve\<close> at once.
  Every LinAlgError of the solver is raised again as SingularMatrixError, any other
  exception of the solver reaches the caller unchanged, and a solution is returned
  unchanged. NumPy rejects a matrix that is not square with a LinAlgError before it
  decomposes anything, so such an \<open>A\<close> yields SingularMatrixError as a singular one does.
\<close>

theorem solve_no_validation:
  "fst (solve_linear_system np A b) = [Called LinalgSolve]
   \<and> (\<forall>m e g. raised (solve_linear_system np A b) \<noteq> Some (Anvaya (DimensionMismatchError m e g)))
   \<and> (linalg_solve np A b = Inl (LinAlgError m) \<longrightarrow>
         raised (solve_linear_system np A b) =
           Some (Anvaya (SingularMatrixError (''Cannot solve system: '' @ m) None)))
   \<and> (linalg_solve np A b = Inl e \<longrightarrow> (\<forall>m. e \<noteq> LinAlgError m) \<longrightarrow>
         raised (solve_linear_system np A b) = Some (Raw e))
   \<and> (linalg_solve np A b = Inr x \<longrightarrow> returned (solve_linear_system np A b) = Some x)
   \<and> (ndim A = 2 \<and> shape A ! 0 \<noteq> shape A ! 1 \<longrightarrow>
         raised (solve_linear_system (numpy_of be) A b) =
           Some (Anvaya (SingularMatrixError
                   ''Cannot solve system: Last 2 dimensions of the array must be square'' None)))"
  by (auto simp add: solve_linear_system_def raised_def returned_def SingularMatrixError_init_def
        numpy_of_def asserted_def assert_stacked_square_def
      split: sum.splits raw_exn.splits)

theorem solve_no_validation_witness:
  "linalg_solve (numpy_of fixture) (zeros [2, 2]) (zeros [2]) = Inl (LinAlgError ''Singular matrix'')
   \<and> raised (solve_linear_system (numpy_of fixture) (zeros [2, 2]) (zeros [2])) =
       Some (Anvaya (SingularMatrixError ''Cannot solve system: Singular matrix'' None))
   \<and> linalg_solve (numpy_of fixture) (zeros [2, 2]) (zeros [3]) = Inl (ValueError ''outside the fixture'')
   \<and> raised (solve_linear_system (numpy_of fixture) (zeros [2, 2]) (zeros [3])) =
       Some (Raw (ValueError ''outside the fixture''))
   \<and> linalg_solve (numpy_of fixture) (eye 2) (zeros [2]) = Inr (zeros [2])
   \<and> returned (solve_linear_system (numpy_of fixture) (eye 2) (zeros [2])) = Some (zeros [2])
   \<and> ndim (zeros [2, 3]) = 2 \<and> shape (zeros [2, 3]) ! 0 \<noteq> shape (zeros [2, 3]) ! 1
   \<and> raised (solve_linear_system (numpy_of fixture) (zeros [2, 3]) (zeros [2])) =
       Some (Anvaya (SingularMatrixError
               ''Cannot solve system: Last 2 dimensions of the array must be square'' None))"
proof -
  let ?np = "numpy_of fixture"
  have a: "linalg_solve ?np (zeros [2, 2]) (zeros [2]) = Inl (LinAlgError ''Singular matrix'')"
    by code_simp
  have b: "linalg_solve ?np (zeros [2, 2]) (zeros [3]) = Inl (ValueError ''outside the fixture'')"
    by code_simp
  have c: "linalg_solve ?np (eye 2) (zeros [2]) = Inr (zeros [2])"
    by code_simp
  have d: "ndim (zeros [2, 3]) = 2 \<and> shape (zeros [2, 3]) ! 0 \<noteq> shape (zeros [2, 3]) ! 1"
    by (simp add: ndim_zeros shape_zeros)
  from solve_no_validation [of ?np "zeros [2, 2]" "zeros [2]" "''Singular matrix''"] a
  have A: "raised (solve_linear_system ?np (zeros [2, 2]) (zeros [2])) =
       Some (Anvaya (SingularMatrixError ''Cannot solve system: Singular matrix'' None))"
    by simp
  from solve_no_validation [of ?np "zeros [2, 2]" "zeros [3]" _ "ValueError ''outside the fixture''"] b
  have B: "raised (solve_linear_system ?np (zeros [2, 2]) (zeros [3])) =
       Some (Raw (ValueError ''outside the fixture''))"
    by simp
  from solve_no_validation [of ?np "eye 2" "zeros [2]" _ _ "zeros [2]"] c
  have C: "returned (solve_linear_system ?np (eye 2) (zeros [2])) = Some (zeros [2])"
    by simp
  from solve_no_validation [of _ "zeros [2, 3]" "zeros [2]" _ _ _ fixture] d
  have D: "raised (solve_linear_system ?np (zeros [2, 3]) (zeros [2])) =
       Some (Anvaya (SingularMatrixError
               ''Cannot solve system: Last 2 dimensions of the array must be square'' None))"
    by blast
  from a A b B c C d D show ?thesis by blast
qed

text \<open>
  The claim as stated fails: for a \<open>2 \<times> 3\<close> matrix and a right-hand side of length 2 the
  solver is called and the exception is a SingularMatrixError, not a
  DimensionMismatchError.
\<close>

theorem solve_nonsquare_counterexample:
  "solve_linear_system (numpy_of fixture) (zeros [2, 3]) (zeros [2]) =
     ([Called LinalgSolve],
      Inl (Anvaya (SingularMatrixError
             ''Cannot solve system: Last 2 dimensions of the array must be square'' None)))"
  by code_simp

section \<open>Positive definiteness\<close>

text \<open>
  C6, as the code has it. \<^verbatim>\<open>is_positive_definite(A)\<close> returns true exactly when
  \<^verbatim>\<open>np.linalg.cholesky\<close> succeeds, and false whenever it raises LinAlgError. It raises
  neither a LinAlgError nor an exception of the library. NumPy rejects an array of fewer
  than two dimensions, or one whose last two dimensions differ, with a LinAlgError, so
  for such an input the predicate returns false as well.
\<close>

theorem is_positive_definite_total:
  "(returned (is_positive_definite np A) = Some True \<longleftrightarrow> (\<exists>L. linalg_cholesky np A = Inr L))
   \<and> (linalg_cholesky np A = Inl (LinAlgError m) \<longrightarrow>
         is_positive_definite np A = ([Called LinalgCholesky], Inr False))
   \<and> (\<forall>m. raised (is_positive_definite np A) \<noteq> Some (Raw (LinAlgError m)))
   \<and> (\<forall>x. raised (is_positive_definite np A) \<noteq> Some (Anvaya x))
   \<and> (ndim A < 2 \<or> shape A ! (ndim A - 2) \<noteq> shape A ! (ndim A - 1) \<longrightarrow>
         is_positive_definite (numpy_of be) A = ([Called LinalgCholesky], Inr False))"
  by (auto simp add: is_positive_definite_def raised_def returned_def
        numpy_of_def asserted_def assert_stacked_square_def
      split: sum.splits raw_exn.splits)

theorem is_positive_definite_total_witness:
  "linalg_cholesky (numpy_of fixture) (eye 2) = Inr (eye 2)
   \<and> returned (is_positive_definite (numpy_of fixture) (eye 2)) = Some True
   \<and> linalg_cholesky (numpy_of fixture) (zeros [2, 2]) = Inl (LinAlgError ''Matrix is not positive definite'')
   \<and> is_positive_definite (numpy_of fixture) (zeros [2, 2]) = ([Called LinalgCholesky], Inr False)
   \<and> shape (zeros [2, 3]) ! (ndim (zeros [2, 3]) - 2) \<noteq> shape (zeros [2, 3]) ! (ndim (zeros [2, 3]) - 1)
   \<and> is_positive_definite (numpy_of fixture) (zeros [2, 3]) = ([Called LinalgCholesky], Inr False)
   \<and> ndim (zeros [3]) < 2
   \<and> is_positive_definite (numpy_of fixture) (zeros [3]) = ([Called LinalgCholesky], Inr False)"
proof -
  let ?np = "numpy_of fixture"
  have a: "linalg_cholesky ?np (eye 2) = Inr (eye 2)" by code_simp
  have b: "linalg_cholesky ?np (zeros [2, 2]) = Inl (LinAlgError ''Matrix is not positive definite'')"
    by code_simp
  have c: "shape (zeros [2, 3]) ! (ndim (zeros [2, 3]) - 2) \<noteq> shape (zeros [2, 3]) ! (ndim (zeros [2, 3]) - 1)"
    by (simp add: ndim_zeros shape_zeros)
  have d: "ndim (zeros [3]) < 2" by (simp add: ndim_zeros)
  from is_positive_definite_total [of ?np "eye 2"] a
  have A: "returned (is_positive_definite ?np (eye 2)) = Some True" by blast
  from is_positive_definite_total [of ?np "zeros [2, 2]" "''Matrix is not positive definite''"] b
  have B: "is_positive_definite ?np (zeros [2, 2]) = ([Called LinalgCholesky], Inr False)" by blast
  from is_positive_definite_total [of _ "zeros [2, 3]" _ fixture] c
  have C: "is_positive_definite ?np (zeros [2, 3]) = ([Called LinalgCholesky], Inr False)" by blast
  from is_positive_definite_total [of _ "zeros [3]" _ fixture] d
  have D: "is_positive_definite ?np (zeros [3]) = ([Called LinalgCholesky], Inr False)" by blast
  from a A b B c C d D show ?thesis by blast
qed

text \<open>
  The claim as stated fails: for a \<open>2 \<times> 3\<close> matrix the predicate raises nothing and
  returns false.
\<close>

theorem is_positive_definite_nonsquare_counterexample:
  "raised (is_positive_definite (numpy_of fixture) (zeros [2, 3])) = None
   \<and> returned (is_positive_definite (numpy_of fixture) (zeros [2, 3])) = Some False"
  by code_simp

section \<open>The default order of norm\<close>

text \<open>
  C8, as the code has it. Called without an order, \<^verbatim>\<open>norm\<close> gives NumPy the order 2:
  for a one-dimensional array the result is the Euclidean norm, for a two-dimensional
  array it is the spectral norm (the largest singular value). The Frobenius norm of a
  matrix is what the order \<^verbatim>\<open>'fro'\<close> gives.
\<close>

theorem norm_default:
  "(ndim v = 1 \<longrightarrow>
      norm_la (numpy_of be) v None =
        ([Called LinalgNorm], map_sum Raw id (be_norm be Euclidean v)))
   \<and> (ndim v = 2 \<longrightarrow>
      norm_la (numpy_of be) v None =
        ([Called LinalgNorm], map_sum Raw id (be_norm be Spectral v))
      \<and> norm_la (numpy_of be) v (Some (OrdStr ''fro'')) =
        ([Called LinalgNorm], map_sum Raw id (be_norm be Frobenius v)))"
  by (auto simp add: norm_la_def numpy_of_def np_linalg_norm_def norm_dispatch_def split: sum.splits)

theorem norm_default_witness:
  "ndim (zeros [3]) = 1
   \<and> be_norm fixture Euclidean (zeros [3]) = Inr (Fin 0)
   \<and> norm_la (numpy_of fixture) (zeros [3]) None = ([Called LinalgNorm], Inr (Fin 0))
   \<and> ndim (eye 4) = 2
   \<and> be_norm fixture Spectral (eye 4) = Inr (Fin 1)
   \<and> be_norm fixture Frobenius (eye 4) = Inr (Fin 2)
   \<and> norm_la (numpy_of fixture) (eye 4) None = ([Called LinalgNorm], Inr (Fin 1))
   \<and> norm_la (numpy_of fixture) (eye 4) (Some (OrdStr ''fro'')) = ([Called LinalgNorm], Inr (Fin 2))"
proof -
  have a: "ndim (zeros [3]) = 1" by (simp add: ndim_zeros)
  have a': "be_norm fixture Euclidean (zeros [3]) = Inr (Fin 0)" by code_simp
  have b: "ndim (eye 4) = 2" by (simp add: ndim_def eye_def)
  have b': "be_norm fixture Spectral (eye 4) = Inr (Fin 1)" by code_simp
  have b'': "be_norm fixture Frobenius (eye 4) = Inr (Fin 2)" by code_simp
  from norm_default [of "zeros [3]" fixture] a a'
  have A: "norm_la (numpy_of fixture) (zeros [3]) None = ([Called LinalgNorm], Inr (Fin 0))" by simp
  from norm_default [of "eye 4" fixture] b b' b''
  have B: "norm_la (numpy_of fixture) (eye 4) None = ([Called LinalgNorm], Inr (Fin 1))
     \<and> norm_la (numpy_of fixture) (eye 4) (Some (OrdStr ''fro'')) = ([Called LinalgNorm], Inr (Fin 2))"
    by simp
  from a a' A b b' b'' B show ?thesis by blast
qed

text \<open>
  The claim as stated fails: for the \<open>4 \<times> 4\<close> identity matrix the call without an
  order returns 1, the spectral norm, while the Frobenius norm is 2.
\<close>

theorem norm_matrix_default_counterexample:
  "ndim (eye 4) = 2
   \<and> returned (norm_la (numpy_of fixture) (eye 4) None) = Some (Fin 1)
   \<and> returned (norm_la (numpy_of fixture) (eye 4) (Some (OrdStr ''fro''))) = Some (Fin 2)
   \<and> norm_dispatch 2 (OrdInt 2) = Inr Spectral"
  by code_simp

section \<open>Construction of a matrix\<close>

lemma convert_all_ok:
  "\<forall>x\<in>set xs. \<exists>y. f x = Inr y \<Longrightarrow> convert_all f xs = Inr (map (\<lambda>x. projr (f x)) xs)"
  by (induction xs) auto

lemma convert_all_error_source:
  "convert_all f xs = Inl e \<Longrightarrow> \<exists>x\<in>set xs. f x = Inl e"
  by (induction xs) (auto split: sum.splits)

lemma convert_all_fails:
  "\<exists>x\<in>set xs. \<exists>e. f x = Inl e \<Longrightarrow> \<exists>e. convert_all f xs = Inl e"
proof (induction xs)
  case Nil
  then show ?case by simp
next
  case (Cons a xs)
  show ?case
  proof (cases "f a")
    case (Inl e)
    then show ?thesis by simp
  next
    case (Inr y)
    with Cons.prems have "\<exists>x\<in>set xs. \<exists>e. f x = Inl e" by auto
    from Cons.IH [OF this] obtain e where "convert_all f xs = Inl e" by blast
    with Inr show ?thesis by simp
  qed
qed

lemma matrix_numpy_of:
  "matrix (numpy_of be) data =
     ([Called NpArray], map_sum Raw id (np_array_f64 be data))"
  by (simp add: matrix_def numpy_of_def split: sum.splits)

text \<open>
  C3, as the code has it. \<^verbatim>\<open>matrix(data)\<close> raises no exception of the library. On a
  non-empty list of rows it fails with the exception of \<^verbatim>\<open>np.array\<close>: a ValueError
  when a row differs in length from the first, and otherwise, when some element does not
  convert to a float64, the error of such an element. When the rows are of equal length
  and every element converts, it returns float64 storage of shape (rows, columns) holding
  the converted elements in row-major order. An int of magnitude up to \<open>2\<^sup>5\<^sup>3\<close> is
  converted to the float of the same value, and a float is kept.
\<close>

theorem matrix_construct:
  "(\<forall>e. raised (matrix np data) \<noteq> Some (Anvaya e))
   \<and> (data = r # rs \<and> (\<exists>row\<in>set rs. length row \<noteq> length r) \<longrightarrow>
        (\<exists>m. raised (matrix (numpy_of be) data) = Some (Raw (ValueError m))))
   \<and> (data = r # rs \<and> (\<forall>row\<in>set rs. length row = length r)
        \<and> (\<exists>x\<in>set (concat data). \<exists>e. to_float64 be x = Inl e) \<longrightarrow>
        (\<exists>x\<in>set (concat data). \<exists>e. to_float64 be x = Inl e
            \<and> raised (matrix (numpy_of be) data) = Some (Raw e)))
   \<and> (data = r # rs \<and> (\<forall>row\<in>set rs. length row = length r)
        \<and> (\<forall>x\<in>set (concat data). \<exists>y. to_float64 be x = Inr y) \<longrightarrow>
        returned (matrix (numpy_of be) data) =
          Some \<lparr>shape = [length data, length r],
                buf = map (\<lambda>x. projr (to_float64 be x)) (concat data)\<rparr>)
   \<and> (\<bar>n\<bar> \<le> 2 ^ 53 \<longrightarrow> to_float64 be (PyInt n) = Inr (Fin (of_int n)))
   \<and> to_float64 be (PyFloat f) = Inr f"
proof (intro conjI)
  show "\<forall>e. raised (matrix np data) \<noteq> Some (Anvaya e)"
    by (simp add: matrix_def raised_def split: sum.splits)
next
  show "data = r # rs \<and> (\<exists>row\<in>set rs. length row \<noteq> length r) \<longrightarrow>
        (\<exists>m. raised (matrix (numpy_of be) data) = Some (Raw (ValueError m)))"
    by (auto simp add: matrix_numpy_of raised_def np_array_f64_def list_ex_iff)
next
  show "data = r # rs \<and> (\<forall>row\<in>set rs. length row = length r)
        \<and> (\<exists>x\<in>set (concat data). \<exists>e. to_float64 be x = Inl e) \<longrightarrow>
        (\<exists>x\<in>set (concat data). \<exists>e. to_float64 be x = Inl e
            \<and> raised (matrix (numpy_of be) data) = Some (Raw e))"
  proof
    assume h: "data = r # rs \<and> (\<forall>row\<in>set rs. length row = length r)
        \<and> (\<exists>x\<in>set (concat data). \<exists>e. to_float64 be x = Inl e)"
    then obtain e where e: "convert_all (to_float64 be) (concat data) = Inl e"
      using convert_all_fails [of "concat data" "to_float64 be"] by blast
    then obtain x where x: "x \<in> set (concat data)" "to_float64 be x = Inl e"
      using convert_all_error_source by blast
    from h have nr: "\<not> list_ex (\<lambda>row. length row \<noteq> length r) rs"
      by (simp add: list_ex_iff)
    from h e nr have "raised (matrix (numpy_of be) data) = Some (Raw e)"
      by (auto simp add: matrix_numpy_of raised_def np_array_f64_def)
    with x show "\<exists>x\<in>set (concat data). \<exists>e. to_float64 be x = Inl e
            \<and> raised (matrix (numpy_of be) data) = Some (Raw e)"
      by blast
  qed
next
  show "data = r # rs \<and> (\<forall>row\<in>set rs. length row = length r)
        \<and> (\<forall>x\<in>set (concat data). \<exists>y. to_float64 be x = Inr y) \<longrightarrow>
        returned (matrix (numpy_of be) data) =
          Some \<lparr>shape = [length data, length r],
                buf = map (\<lambda>x. projr (to_float64 be x)) (concat data)\<rparr>"
  proof
    assume h: "data = r # rs \<and> (\<forall>row\<in>set rs. length row = length r)
        \<and> (\<forall>x\<in>set (concat data). \<exists>y. to_float64 be x = Inr y)"
    then have c: "convert_all (to_float64 be) (concat data) =
        Inr (map (\<lambda>x. projr (to_float64 be x)) (concat data))"
      using convert_all_ok [of "concat data" "to_float64 be"] by blast
    from h have nr: "\<not> list_ex (\<lambda>row. length row \<noteq> length r) rs"
      by (simp add: list_ex_iff)
    from h c nr show "returned (matrix (numpy_of be) data) =
          Some \<lparr>shape = [length data, length r],
                buf = map (\<lambda>x. projr (to_float64 be x)) (concat data)\<rparr>"
      by (auto simp add: matrix_numpy_of returned_def np_array_f64_def)
  qed
next
  show "\<bar>n\<bar> \<le> 2 ^ 53 \<longrightarrow> to_float64 be (PyInt n) = Inr (Fin (of_int n))"
    by (simp add: to_float64_def)
next
  show "to_float64 be (PyFloat f) = Inr f"
    by (simp add: to_float64_def)
qed

theorem matrix_construct_witness:
  "(\<exists>m. raised (matrix (numpy_of fixture) [[PyInt 1, PyInt 2], [PyInt 3]]) = Some (Raw (ValueError m)))
   \<and> to_float64 fixture (PyStr ''abc'') =
        Inl (ValueError (''could not convert string to float: '' @ quoted ''abc''))
   \<and> raised (matrix (numpy_of fixture) [[PyInt 1, PyStr ''abc'']]) =
        Some (Raw (ValueError (''could not convert string to float: '' @ quoted ''abc'')))
   \<and> returned (matrix (numpy_of fixture) [[PyInt 1, PyInt 2], [PyInt 3, PyFloat (Fin (5 / 2))]]) =
        Some \<lparr>shape = [2, 2], buf = [Fin 1, Fin 2, Fin 3, Fin (5 / 2)]\<rparr>
   \<and> \<bar>3 :: int\<bar> \<le> 2 ^ 53
   \<and> to_float64 fixture (PyInt 3) = Inr (Fin 3)"
proof -
  let ?np = "numpy_of fixture"
  define msg where "msg = ''could not convert string to float: '' @ quoted ''abc''"
  have s: "to_float64 fixture (PyStr ''abc'') = Inl (ValueError msg)"
    unfolding msg_def by code_simp
  have i: "to_float64 fixture (PyInt 1) = Inr (Fin 1)" by (simp add: to_float64_def)
  have n: "\<bar>3 :: int\<bar> \<le> 2 ^ 53" by simp
  have A: "\<exists>m. raised (matrix ?np [[PyInt 1, PyInt 2], [PyInt 3]]) = Some (Raw (ValueError m))"
    using matrix_construct [of _ "[[PyInt 1, PyInt 2], [PyInt 3]]" "[PyInt 1, PyInt 2]" "[[PyInt 3]]" fixture]
    by simp
  have H: "[[PyInt 1, PyStr ''abc'']] = [PyInt 1, PyStr ''abc''] # []
      \<and> (\<forall>row\<in>set []. length row = length [PyInt 1, PyStr ''abc''])
      \<and> (\<exists>x\<in>set (concat [[PyInt 1, PyStr ''abc'']]). \<exists>e. to_float64 fixture x = Inl e)"
    using s by simp
  note T = matrix_construct [of ?np "[[PyInt 1, PyStr ''abc'']]" "[PyInt 1, PyStr ''abc'']" "[]" fixture 0 NaN,
      THEN conjunct2, THEN conjunct2, THEN conjunct1]
  from T H obtain x e where x: "x \<in> set (concat [[PyInt 1, PyStr ''abc'']])"
      and e: "to_float64 fixture x = Inl e"
      and r: "raised (matrix ?np [[PyInt 1, PyStr ''abc'']]) = Some (Raw e)"
    by blast
  from x have "x = PyInt 1 \<or> x = PyStr ''abc''" by simp
  with e i s have "e = ValueError msg" by auto
  with r have B: "raised (matrix ?np [[PyInt 1, PyStr ''abc'']]) = Some (Raw (ValueError msg))"
    by simp
  have C: "returned (matrix ?np [[PyInt 1, PyInt 2], [PyInt 3, PyFloat (Fin (5 / 2))]]) =
        Some \<lparr>shape = [2, 2], buf = [Fin 1, Fin 2, Fin 3, Fin (5 / 2)]\<rparr>"
    using matrix_construct [of _ "[[PyInt 1, PyInt 2], [PyInt 3, PyFloat (Fin (5 / 2))]]"
        "[PyInt 1, PyInt 2]" "[[PyInt 3, PyFloat (Fin (5 / 2))]]" fixture]
    by (simp add: to_float64_def)
  have D: "to_float64 fixture (PyInt 3) = Inr (Fin 3)"
    using matrix_construct [of _ _ _ _ fixture 3] n by simp
  from A s B C n D show ?thesis unfolding msg_def by blast
qed

text \<open>
  The claim as stated fails: for rows of lengths 2 and 1 the exception is NumPy's
  ValueError. The library has no class InvalidShapeError.
\<close>

theorem matrix_ragged_counterexample:
  "raised (matrix (numpy_of fixture) [[PyInt 1, PyInt 2], [PyInt 3]]) =
     Some (Raw (ValueError (''setting an array element with a sequence. The requested array ''
        @ ''has an inhomogeneous shape after 1 dimensions. The detected shape was (2,) ''
        @ ''+ inhomogeneous part.'')))"
  by code_simp

end
